theory Spec2Isabelle
  imports Main "HOL-Library.AList"
begin

section \<open>Documents, metadata and exceptions\<close>

text \<open>
  Python strings are modelled as \<open>string\<close>; a letter outside ASCII is written as the
  bytes of its UTF-8 encoding. A metadata value of the vector store is a string or a
  number (the PDF loader stores the page number as an integer). A metadata dictionary
  is an association list read with \<open>map_of\<close>; the empty list also stands for the
  absent (\<open>None\<close>) metadata the store client may hand back, since the source treats
  both alike (\<open>if meta and 'source' in meta\<close>).
\<close>

datatype meta_value = MStr string | MInt int

record document =
  page_content :: string
  metadata :: "(string \<times> meta_value) list"

text \<open>
  An exception raised by an external collaborator, with the text \<open>str(e)\<close> gives for it.
  Only instances of \<open>Exception\<close> are modelled (the ones \<open>except Exception\<close> catches).
\<close>

datatype exn = Exception string

fun str_exn :: "exn \<Rightarrow> string" where
  "str_exn (Exception m) = m"

text \<open>\<open>str(n)\<close> of a non-negative integer: its decimal digits.\<close>

fun str_nat :: "nat \<Rightarrow> string" where
  "str_nat n =
     (if n < 10 then [char_of (48 + n)]
      else str_nat (n div 10) @ [char_of (48 + n mod 10)])"

text \<open>\<open>str(x)\<close> of an optional string, as an f-string prints it.\<close>

fun str_opt :: "string option \<Rightarrow> string" where
  "str_opt None = ''None''"
| "str_opt (Some s) = s"

definition quote :: string where
  "quote = [CHR 0x27]"

section \<open>The engine and the persisted vector store\<close>

text \<open>
  \<open>RagEngine\<close> has one mutable field, \<open>vector_store\<close>: \<open>None\<close> or a Chroma client bound
  to the directory \<open>PERSIST_DIRECTORY\<close>. The client holds no entries of its own; they live
  in the directory. The state therefore has the handle and the directory side by side:
  \<open>persist_directory = None\<close> when \<open>os.path.exists(PERSIST_DIRECTORY)\<close> is false, and
  otherwise the index entries of the collection, in insertion order. Embedding vectors
  and entry ids are opaque to the engine and left out.
\<close>

datatype chroma = Chroma

record rag_engine =
  vector_store :: "chroma option"
  persist_directory :: "document list option"

definition collection :: "rag_engine \<Rightarrow> document list" where
  "collection e = (case persist_directory e of None \<Rightarrow> [] | Some es \<Rightarrow> es)"

text \<open>
  Modelled from the spec: the vector store client (\<open>create\<close>, \<open>add\<close>, \<open>get_all\<close>,
  \<open>delete(filter)\<close>) is an external library whose code is not in the repository.
  Adding appends entries with the chunk's text and metadata, creating the directory when
  it is missing; deleting with the filter \<open>{"source": filename}\<close> removes exactly the
  entries whose \<open>source\<close> metadata equals that string; reading returns the metadata of
  every entry. A call that raises is taken to leave the directory as it was.
\<close>

definition chroma_add :: "document list \<Rightarrow> document list option \<Rightarrow> document list option" where
  "chroma_add chunks dir = Some ((case dir of None \<Rightarrow> [] | Some es \<Rightarrow> es) @ chunks)"

definition source_is :: "string \<Rightarrow> document \<Rightarrow> bool" where
  "source_is filename d = (map_of (metadata d) ''source'' = Some (MStr filename))"

definition chroma_delete :: "string \<Rightarrow> document list option \<Rightarrow> document list option" where
  "chroma_delete filename dir = map_option (filter (\<lambda>d. \<not> source_is filename d)) dir"

text \<open>
  The result of \<open>get()\<close>: \<open>None\<close> stands for a result that is empty or has no
  \<open>'metadatas'\<close> key, which the source checks for; the modelled client never returns it.
\<close>

definition chroma_get :: "exn option \<Rightarrow> document list \<Rightarrow> exn + (string \<times> meta_value) list list option" where
  "chroma_get fault es = (case fault of Some ex \<Rightarrow> Inl ex | None \<Rightarrow> Inr (Some (map metadata es)))"

text \<open>
  The source tests the handle with \<open>not self.vector_store\<close>, so a handle that is not
  \<open>None\<close> is converted to a truth value by the client class. Whether that class is
  always true (the default for an object) or true when the collection is non-empty
  (a class with \<open>__len__\<close>) is decided outside the repository: the conversion is the
  parameter \<open>chroma_bool\<close>, applied to the collection the handle is bound to.
\<close>

definition falsy :: "(document list \<Rightarrow> bool) \<Rightarrow> rag_engine \<Rightarrow> bool" where
  "falsy chroma_bool e = (vector_store e = None \<or> \<not> chroma_bool (collection e))"

definition bool_object :: "document list \<Rightarrow> bool" where
  "bool_object es = True"

definition bool_len :: "document list \<Rightarrow> bool" where
  "bool_len es = (es \<noteq> [])"

subsection \<open>\<open>__init__\<close> and \<open>_init_vector_store\<close>\<close>

definition init_vector_store :: "rag_engine \<Rightarrow> rag_engine" where
  "init_vector_store e =
     (if persist_directory e \<noteq> None then e\<lparr>vector_store := Some Chroma\<rparr>
      else e\<lparr>vector_store := None\<rparr>)"

definition init :: "document list option \<Rightarrow> rag_engine" where
  "init dir = init_vector_store \<lparr>vector_store = None, persist_directory = dir\<rparr>"

subsection \<open>\<open>ingest_pdf\<close>\<close>

text \<open>
  The loop over the loaded pages: \<open>if original_filename: doc.metadata["source"] =
  original_filename\<close>. The argument defaults to \<open>None\<close>; \<open>None\<close> and the empty string
  are both false in Python, and then the page keeps the metadata the loader gave it.
\<close>

definition stamp_source :: "string option \<Rightarrow> document \<Rightarrow> document" where
  "stamp_source original_filename doc =
     (case original_filename of
        None \<Rightarrow> doc
      | Some f \<Rightarrow>
          if f = [] then doc
          else doc\<lparr>metadata := AList.update ''source'' (MStr f) (metadata doc)\<rparr>)"

text \<open>
  Modelled from the spec: the text splitter is an external library. \<open>split_text\<close> is its
  policy for cutting one text (chunk size 1000, overlap 200), taken as a parameter and
  as total (it raises nothing); every chunk inherits the metadata of the page it was cut
  from.
\<close>

definition split_documents :: "(string \<Rightarrow> string list) \<Rightarrow> document list \<Rightarrow> document list" where
  "split_documents split_text documents =
     concat (map (\<lambda>doc. map (\<lambda>t. \<lparr>page_content = t, metadata = metadata doc\<rparr>)
                              (split_text (page_content doc))) documents)"

definition processed_message :: "nat \<Rightarrow> string option \<Rightarrow> string" where
  "processed_message n original_filename =
     ''Procesado correctamente: '' @ str_nat n @ '' fragmentos de '' @ quote
       @ str_opt original_filename @ quote @ ''.''"

text \<open>
  The body of the \<open>try\<close>: \<open>Inl\<close> is an exception raised inside it. \<open>load\<close> is
  \<open>PyPDFLoader(file_path).load()\<close>, \<open>store_fault\<close> the exception the vector store call
  (\<open>Chroma.from_documents\<close> or \<open>add_documents\<close>) raises, if it raises.
\<close>

definition ingest_pdf_try ::
  "(string \<Rightarrow> exn + document list) \<Rightarrow> (string \<Rightarrow> string list) \<Rightarrow> exn option \<Rightarrow>
   rag_engine \<Rightarrow> string \<Rightarrow> string option \<Rightarrow> exn + rag_engine \<times> string" where
  "ingest_pdf_try load split_text store_fault e file_path original_filename =
     (case load file_path of
        Inl ex \<Rightarrow> Inl ex
      | Inr documents \<Rightarrow>
          (let chunks = split_documents split_text (map (stamp_source original_filename) documents)
           in case store_fault of
                Some ex \<Rightarrow> Inl ex
              | None \<Rightarrow>
                  Inr (if vector_store e = None
                       then e\<lparr>vector_store := Some Chroma,
                              persist_directory := chroma_add chunks (persist_directory e)\<rparr>
                       else e\<lparr>persist_directory := chroma_add chunks (persist_directory e)\<rparr>,
                       processed_message (length chunks) original_filename)))"

definition ingest_pdf ::
  "(string \<Rightarrow> exn + document list) \<Rightarrow> (string \<Rightarrow> string list) \<Rightarrow> exn option \<Rightarrow>
   rag_engine \<Rightarrow> string \<Rightarrow> string option \<Rightarrow> rag_engine \<times> string" where
  "ingest_pdf load split_text store_fault e file_path original_filename =
     (case ingest_pdf_try load split_text store_fault e file_path original_filename of
        Inr r \<Rightarrow> r
      | Inl ex \<Rightarrow> (e, ''Error al procesar PDF: '' @ str_exn ex))"

subsection \<open>The upload loop of \<open>app.py\<close>\<close>

text \<open>
  Each uploaded file is copied to a temporary path and ingested under its own name; the
  message \<open>ingest_pdf\<close> returns is dropped. \<open>store_fault\<close> gives, per temporary path,
  the exception the vector store raises for that file, if any.
\<close>

record uploaded_file =
  name :: string
  tmp_path :: string

fun upload_loop ::
  "(string \<Rightarrow> exn + document list) \<Rightarrow> (string \<Rightarrow> string list) \<Rightarrow> (string \<Rightarrow> exn option) \<Rightarrow>
   rag_engine \<Rightarrow> uploaded_file list \<Rightarrow> rag_engine" where
  "upload_loop load split_text store_fault e [] = e"
| "upload_loop load split_text store_fault e (file # files) =
     upload_loop load split_text store_fault
       (fst (ingest_pdf load split_text (store_fault (tmp_path file)) e
               (tmp_path file) (Some (name file))))
       files"

subsection \<open>\<open>get_ingested_files\<close>\<close>

text \<open>
  \<open>os.path.basename\<close>, as \<open>posixpath\<close> defines it: what follows the last slash (the
  whole string when there is none).
\<close>

definition basename :: "string \<Rightarrow> string" where
  "basename p = rev (takeWhile (\<lambda>c. c \<noteq> CHR ''/'') (rev p))"

text \<open>
  The loop that fills \<open>unique_files\<close>. The Python set is a list without duplicates
  (\<open>List.insert\<close> adds an element only when it is new); the order of \<open>list(unique_files)\<close>
  is not fixed by Python, so only the elements of the result matter. \<open>os.path.basename\<close>
  of a value that is not a string raises \<open>TypeError\<close>.
\<close>

fun unique_files :: "(string \<times> meta_value) list list \<Rightarrow> string list \<Rightarrow> exn + string list" where
  "unique_files [] acc = Inr acc"
| "unique_files (meta # metas) acc =
     (case map_of meta ''source'' of
        None \<Rightarrow> unique_files metas acc
      | Some (MStr s) \<Rightarrow> unique_files metas (List.insert (basename s) acc)
      | Some (MInt i) \<Rightarrow> Inl (Exception ''expected str, bytes or os.PathLike object, not int''))"

definition get_ingested_files ::
  "(document list \<Rightarrow> bool) \<Rightarrow> exn option \<Rightarrow> rag_engine \<Rightarrow> string list" where
  "get_ingested_files chroma_bool get_fault e =
     (if falsy chroma_bool e then []
      else case chroma_get get_fault (collection e) of
             Inl ex \<Rightarrow> []
           | Inr None \<Rightarrow> []
           | Inr (Some metadatas) \<Rightarrow>
               (case unique_files metadatas [] of Inl ex \<Rightarrow> [] | Inr files \<Rightarrow> files))"

subsection \<open>\<open>delete_file\<close>\<close>

definition delete_file ::
  "(document list \<Rightarrow> bool) \<Rightarrow> exn option \<Rightarrow> rag_engine \<Rightarrow> string \<Rightarrow> rag_engine \<times> string" where
  "delete_file chroma_bool delete_fault e filename =
     (if falsy chroma_bool e then (e, ''Error: Base de datos no inicializada.'')
      else case delete_fault of
             Some ex \<Rightarrow> (e, ''Error al eliminar archivo: '' @ str_exn ex)
           | None \<Rightarrow>
               (e\<lparr>persist_directory := chroma_delete filename (persist_directory e)\<rparr>,
                ''Archivo '' @ quote @ filename @ quote @ '' eliminado de la memoria.''))"

subsection \<open>\<open>clear_database\<close>\<close>

text \<open>\<open>rmtree_fault\<close> is the exception \<open>shutil.rmtree\<close> raises, if it raises.\<close>

definition clear_database :: "exn option \<Rightarrow> rag_engine \<Rightarrow> rag_engine \<times> string" where
  "clear_database rmtree_fault e =
     (if persist_directory e \<noteq> None then
        (let e1 = e\<lparr>vector_store := None\<rparr> in
         case rmtree_fault of
           None \<Rightarrow> (e1\<lparr>persist_directory := None\<rparr>, ''Base de datos borrada correctamente.'')
         | Some ex \<Rightarrow> (e1, ''Error al borrar base de datos: '' @ str_exn ex))
      else (e, ''La base de datos ya estaba vac'' @ [CHR 0xC3, CHR 0xAD] @ ''a.''))"

subsection \<open>\<open>get_chain\<close>\<close>

text \<open>
  A prompt is a list of messages. The generative model and the similarity search of the
  vector store are external: \<open>llm\<close> maps the prompt it is invoked with to its output or
  to the exception it raises, and may depend on every external call made before (the
  trace), so that two invocations need not agree; \<open>search store query k\<close> is the
  retriever. Each stage appends the external calls it makes to the trace.
\<close>

datatype role = System | Human | AI

record chain_input =
  input :: string
  chat_history :: "(role \<times> string) list"

datatype event = Generate "(role \<times> string) list" | Similarity_search string nat

definition nl :: string where
  "nl = [CHR 0x0A]"

definition contextualize_q_system_prompt :: string where
  "contextualize_q_system_prompt =
     ''Dado un historial de chat y la '' @ [CHR 0xC3, CHR 0xBA] @ ''ltima pregunta del usuario '' @ nl
     @ ''        (que podr'' @ [CHR 0xC3, CHR 0xAD]
     @ ''a hacer referencia al contexto del historial), formula una pregunta independiente '' @ nl
     @ ''        que pueda entenderse sin el historial. NO la respondas, solo re-form''
     @ [CHR 0xC3, CHR 0xBA] @ ''lala si es necesario '' @ nl
     @ ''        o devu'' @ [CHR 0xC3, CHR 0xA9] @ ''lvela tal cual si ya es clara.''"

definition contextualize_q_prompt :: "chain_input \<Rightarrow> (role \<times> string) list" where
  "contextualize_q_prompt x =
     (System, contextualize_q_system_prompt) # chat_history x @ [(Human, input x)]"

text \<open>The template ends with the placeholder \<open>{context}\<close>, filled with the context block.\<close>

definition qa_system_prompt :: "string \<Rightarrow> string" where
  "qa_system_prompt context =
     ''Eres un asistente experto para tareas de preguntas y respuestas. '' @ nl
     @ ''        Usa los siguientes fragmentos de contexto recuperado para responder a la pregunta. '' @ nl
     @ ''        Si no sabes la respuesta, di simplemente que no lo sabes. '' @ nl
     @ ''        Usa un m'' @ [CHR 0xC3, CHR 0xA1] @ ''ximo de tres oraciones y mant''
     @ [CHR 0xC3, CHR 0xA9] @ ''n la respuesta concisa.'' @ nl
     @ ''        RESPONDE SIEMPRE EN ESPA'' @ [CHR 0xC3, CHR 0x91] @ ''OL.'' @ nl
     @ ''        '' @ nl
     @ ''        '' @ context"

definition qa_prompt :: "string \<Rightarrow> chain_input \<Rightarrow> (role \<times> string) list" where
  "qa_prompt context x =
     (System, qa_system_prompt context) # chat_history x @ [(Human, input x)]"

text \<open>\<open>StrOutputParser\<close> on the text a string model returns: the text itself.\<close>

definition StrOutputParser :: "string \<Rightarrow> string" where
  "StrOutputParser out = out"

text \<open>\<open>sep.join(xs)\<close>.\<close>

fun join :: "string \<Rightarrow> string list \<Rightarrow> string" where
  "join sep [] = []"
| "join sep [x] = x"
| "join sep (x # y # ys) = x @ sep @ join sep (y # ys)"

definition format_docs :: "document list \<Rightarrow> string" where
  "format_docs docs = join (nl @ nl) (map page_content docs)"

text \<open>\<open>contextualize_q_prompt | llm | StrOutputParser() | retriever\<close>, with \<open>k = 4\<close>.\<close>

definition history_aware_retriever ::
  "(event list \<Rightarrow> (role \<times> string) list \<Rightarrow> exn + string) \<Rightarrow>
   (document list \<Rightarrow> string \<Rightarrow> nat \<Rightarrow> exn + document list) \<Rightarrow>
   document list \<Rightarrow> chain_input \<Rightarrow> event list \<Rightarrow> (exn + document list) \<times> event list" where
  "history_aware_retriever llm search store x tr =
     (let p = contextualize_q_prompt x in
      case llm tr p of
        Inl ex \<Rightarrow> (Inl ex, tr @ [Generate p])
      | Inr out \<Rightarrow>
          (let q = StrOutputParser out
           in (search store q 4, tr @ [Generate p, Similarity_search q 4])))"

text \<open>
  \<open>RunnablePassthrough.assign(context = history_aware_retriever | format_docs)
  | qa_prompt | llm | StrOutputParser()\<close>.
\<close>

definition rag_chain ::
  "(event list \<Rightarrow> (role \<times> string) list \<Rightarrow> exn + string) \<Rightarrow>
   (document list \<Rightarrow> string \<Rightarrow> nat \<Rightarrow> exn + document list) \<Rightarrow>
   document list \<Rightarrow> chain_input \<Rightarrow> event list \<Rightarrow> (exn + string) \<times> event list" where
  "rag_chain llm search store x tr =
     (case history_aware_retriever llm search store x tr of
        (Inl ex, tr1) \<Rightarrow> (Inl ex, tr1)
      | (Inr docs, tr1) \<Rightarrow>
          (let p = qa_prompt (format_docs docs) x in
           case llm tr1 p of
             Inl ex \<Rightarrow> (Inl ex, tr1 @ [Generate p])
           | Inr out \<Rightarrow> (Inr (StrOutputParser out), tr1 @ [Generate p])))"

text \<open>
  The chain is bound to the collection of the moment \<open>get_chain\<close> is called; \<open>app.py\<close>
  builds it for each question, right before invoking it.
\<close>

definition get_chain ::
  "(document list \<Rightarrow> bool) \<Rightarrow>
   (event list \<Rightarrow> (role \<times> string) list \<Rightarrow> exn + string) \<Rightarrow>
   (document list \<Rightarrow> string \<Rightarrow> nat \<Rightarrow> exn + document list) \<Rightarrow>
   rag_engine \<Rightarrow> (chain_input \<Rightarrow> event list \<Rightarrow> (exn + string) \<times> event list) option" where
  "get_chain chroma_bool llm search e =
     (if falsy chroma_bool e then None else Some (rag_chain llm search (collection e)))"

section \<open>Vocabulary of the properties and example inputs\<close>

text \<open>
  The \<open>source\<close> metadata values that are strings, entry by entry, and the check that no
  entry has a \<open>source\<close> that is not a string.
\<close>

fun source_names :: "document list \<Rightarrow> string list" where
  "source_names [] = []"
| "source_names (d # ds) =
     (case map_of (metadata d) ''source'' of
        Some (MStr s) \<Rightarrow> s # source_names ds
      | _ \<Rightarrow> source_names ds)"

definition str_sources :: "document list \<Rightarrow> bool" where
  "str_sources es =
     list_all (\<lambda>d. case map_of (metadata d) ''source'' of Some (MInt i) \<Rightarrow> False | _ \<Rightarrow> True) es"

text \<open>
  A loader in the manner of the PDF loader: one page, whose \<open>source\<close> is the path it was
  read from; one path is unreadable. A splitter that cuts two overlapping chunks, and
  none from an empty text. A model that rewrites first and answers afterwards, and a
  search that returns the first \<open>k\<close> entries.
\<close>

definition example_load :: "string \<Rightarrow> exn + document list" where
  "example_load p =
     (if p = ''/tmp/bad.pdf'' then Inl (Exception ''EOF marker not found'')
      else Inr [\<lparr>page_content = ''hola mundo'',
                 metadata = [(''source'', MStr p), (''page'', MInt 0)]\<rparr>])"

definition example_split_text :: "string \<Rightarrow> string list" where
  "example_split_text t = (if t = [] then [] else [take 6 t, drop 4 t])"

definition example_llm :: "event list \<Rightarrow> (role \<times> string) list \<Rightarrow> exn + string" where
  "example_llm tr p = Inr (if tr = [] then ''pregunta independiente'' else ''respuesta'')"

definition example_search :: "document list \<Rightarrow> string \<Rightarrow> nat \<Rightarrow> exn + document list" where
  "example_search store q k = Inr (take k store)"

text \<open>
  Two engines, each started without a persisted directory and given one upload: one with
  the user's filename, one with \<open>original_filename\<close> left at its default.
\<close>

definition engine_named :: rag_engine where
  "engine_named =
     fst (ingest_pdf example_load example_split_text None (init None)
            ''/tmp/tmpab12.pdf'' (Some ''a.pdf''))"

definition engine_unnamed :: rag_engine where
  "engine_unnamed =
     fst (ingest_pdf example_load example_split_text None (init None)
            ''/tmp/tmpab12.pdf'' None)"

section \<open>Properties\<close>

subsection \<open>Helper lemmas\<close>

lemma unique_files_str:
  "str_sources es \<Longrightarrow> distinct acc \<Longrightarrow>
   \<exists>fs. unique_files (map metadata es) acc = Inr fs \<and> distinct fs
        \<and> set fs = set acc \<union> basename ` set (source_names es)"
proof (induction es arbitrary: acc)
  case Nil
  then show ?case by simp
next
  case (Cons d ds)
  then have ds: "str_sources ds" by (simp add: str_sources_def)
  show ?case
  proof (cases "map_of (metadata d) ''source''")
    case None
    with Cons.IH [OF ds Cons.prems(2)] show ?thesis by simp
  next
    case (Some v)
    show ?thesis
    proof (cases v)
      case (MStr s)
      have "distinct (List.insert (basename s) acc)" using Cons.prems(2) by simp
      from Cons.IH [OF ds this] Some MStr show ?thesis by auto
    next
      case (MInt i)
      with Some Cons.prems(1) show ?thesis by (simp add: str_sources_def)
    qed
  qed
qed

lemma unique_files_not_str:
  "\<not> str_sources es \<Longrightarrow> \<exists>ex. unique_files (map metadata es) acc = Inl ex"
proof (induction es arbitrary: acc)
  case Nil
  then show ?case by (simp add: str_sources_def)
next
  case (Cons d ds)
  show ?case
  proof (cases "map_of (metadata d) ''source''")
    case None
    with Cons.prems have "\<not> str_sources ds" by (simp add: str_sources_def)
    from Cons.IH [OF this] None show ?thesis by simp
  next
    case (Some v)
    show ?thesis
    proof (cases v)
      case (MStr s)
      with Some Cons.prems have "\<not> str_sources ds" by (simp add: str_sources_def)
      from Cons.IH [OF this] Some MStr show ?thesis by simp
    next
      case (MInt i)
      with Some show ?thesis by simp
    qed
  qed
qed

lemma listing_str:
  assumes "\<not> falsy chroma_bool e" and "str_sources (collection e)"
  shows "set (get_ingested_files chroma_bool None e) = basename ` set (source_names (collection e))"
    and "distinct (get_ingested_files chroma_bool None e)"
proof -
  obtain fs where "unique_files (map metadata (collection e)) [] = Inr fs" "distinct fs"
      "set fs = basename ` set (source_names (collection e))"
    using unique_files_str [OF assms(2), of "[]"] by auto
  with assms(1) show
    "set (get_ingested_files chroma_bool None e) = basename ` set (source_names (collection e))"
    "distinct (get_ingested_files chroma_bool None e)"
    by (simp_all add: get_ingested_files_def chroma_get_def)
qed

lemma source_names_append: "source_names (xs @ ys) = source_names xs @ source_names ys"
  by (induction xs) (auto split: option.splits meta_value.splits)

lemma str_sources_append: "str_sources (xs @ ys) = (str_sources xs \<and> str_sources ys)"
  by (simp add: str_sources_def)

lemma stamp_source_is:
  "f \<noteq> [] \<Longrightarrow> source_is f (stamp_source (Some f) doc)"
  by (simp add: stamp_source_def source_is_def update_conv')

lemma split_documents_source:
  "\<forall>doc \<in> set documents. source_is f doc \<Longrightarrow>
   \<forall>d \<in> set (split_documents split_text documents). source_is f d"
  by (auto simp: split_documents_def source_is_def)

lemma stamped_chunks_source:
  "f \<noteq> [] \<Longrightarrow>
   \<forall>d \<in> set (split_documents split_text (map (stamp_source (Some f)) documents)). source_is f d"
  by (rule split_documents_source) (simp add: stamp_source_is)

lemma source_names_all:
  "\<forall>d \<in> set ds. source_is f d \<Longrightarrow> set (source_names ds) = (if ds = [] then {} else {f})"
  by (induction ds) (auto simp: source_is_def)

lemma str_sources_all:
  "\<forall>d \<in> set ds. source_is f d \<Longrightarrow> str_sources ds"
  by (induction ds) (auto simp: source_is_def str_sources_def)

lemma chroma_handle: "(h :: chroma) = Chroma"
  by (cases h) simp

lemma ingest_pdf_try_Inr:
  assumes "ingest_pdf_try load split_text store_fault e file_path original_filename = Inr (e', msg)"
  shows "\<exists>documents. load file_path = Inr documents \<and> store_fault = None
           \<and> collection e' = collection e
                @ split_documents split_text (map (stamp_source original_filename) documents)
           \<and> vector_store e' = Some Chroma
           \<and> persist_directory e' \<noteq> None
           \<and> msg = processed_message
                (length (split_documents split_text (map (stamp_source original_filename) documents)))
                original_filename"
  using assms
  by (cases e)
     (auto simp: ingest_pdf_try_def Let_def collection_def chroma_add_def
           split: sum.splits option.splits if_splits intro: chroma_handle)

lemma ingest_pdf_ok:
  assumes "load file_path = Inr documents"
  shows "ingest_pdf load split_text None e file_path original_filename =
           (\<lparr>vector_store = Some Chroma,
             persist_directory = Some (collection e
                @ split_documents split_text (map (stamp_source original_filename) documents))\<rparr>,
            processed_message
                (length (split_documents split_text (map (stamp_source original_filename) documents)))
                original_filename)"
  using assms
  by (cases e)
     (auto simp: ingest_pdf_def ingest_pdf_try_def Let_def collection_def chroma_add_def
           split: sum.splits option.splits if_splits intro: chroma_handle)

lemma upload_loop_append:
  "upload_loop load split_text store_fault e (xs @ ys) =
     upload_loop load split_text store_fault (upload_loop load split_text store_fault e xs) ys"
  by (induction xs arbitrary: e) simp_all

lemma example_ingest_default:
  "ingest_pdf example_load example_split_text None (init None) ''/tmp/tmpab12.pdf'' None =
     (\<lparr>vector_store = Some Chroma,
       persist_directory = Some
         [\<lparr>page_content = ''hola m'',
            metadata = [(''source'', MStr ''/tmp/tmpab12.pdf''), (''page'', MInt 0)]\<rparr>,
          \<lparr>page_content = '' mundo'',
            metadata = [(''source'', MStr ''/tmp/tmpab12.pdf''), (''page'', MInt 0)]\<rparr>]\<rparr>,
      ''Procesado correctamente: 2 fragmentos de 'None'.'')"
  by code_simp

lemma example_ingest_empty_name:
  "ingest_pdf example_load example_split_text None (init None) ''/tmp/tmpab12.pdf'' (Some '''') =
     (\<lparr>vector_store = Some Chroma,
       persist_directory = Some
         [\<lparr>page_content = ''hola m'',
            metadata = [(''source'', MStr ''/tmp/tmpab12.pdf''), (''page'', MInt 0)]\<rparr>,
          \<lparr>page_content = '' mundo'',
            metadata = [(''source'', MStr ''/tmp/tmpab12.pdf''), (''page'', MInt 0)]\<rparr>]\<rparr>,
      ''Procesado correctamente: 2 fragmentos de '' @ quote @ quote @ ''.'')"
  by code_simp

lemma example_ingest_named:
  "ingest_pdf example_load example_split_text None (init None) ''/tmp/tmpab12.pdf'' (Some ''a.pdf'') =
     (\<lparr>vector_store = Some Chroma,
       persist_directory = Some
         [\<lparr>page_content = ''hola m'',
            metadata = [(''source'', MStr ''a.pdf''), (''page'', MInt 0)]\<rparr>,
          \<lparr>page_content = '' mundo'',
            metadata = [(''source'', MStr ''a.pdf''), (''page'', MInt 0)]\<rparr>]\<rparr>,
      ''Procesado correctamente: 2 fragmentos de 'a.pdf'.'')"
  by code_simp

lemma page_content_stamp_source [simp]:
  "page_content (stamp_source original_filename doc) = page_content doc"
  by (simp add: stamp_source_def split: option.splits)

lemma page_content_split_documents:
  "map page_content (split_documents split_text documents)
     = concat (map split_text (map page_content documents))"
  by (induction documents) (simp_all add: split_documents_def comp_def)

lemma split_documents_same_text:
  assumes "map page_content documents1 = map page_content documents2"
  shows "map page_content (split_documents split_text (map (stamp_source f1) documents1))
           = map page_content (split_documents split_text (map (stamp_source f2) documents2))"
proof -
  have "map page_content (map (stamp_source f1) documents1)
          = map page_content (map (stamp_source f2) documents2)"
    using assms by (simp add: comp_def)
  then show ?thesis by (simp only: page_content_split_documents)
qed

lemma engine_named_eq:
  "engine_named =
     \<lparr>vector_store = Some Chroma,
      persist_directory = Some
        [\<lparr>page_content = ''hola m'',
           metadata = [(''source'', MStr ''a.pdf''), (''page'', MInt 0)]\<rparr>,
         \<lparr>page_content = '' mundo'',
           metadata = [(''source'', MStr ''a.pdf''), (''page'', MInt 0)]\<rparr>]\<rparr>"
  by (simp add: engine_named_def example_ingest_named)

lemma engine_unnamed_eq:
  "engine_unnamed =
     \<lparr>vector_store = Some Chroma,
      persist_directory = Some
        [\<lparr>page_content = ''hola m'',
           metadata = [(''source'', MStr ''/tmp/tmpab12.pdf''), (''page'', MInt 0)]\<rparr>,
         \<lparr>page_content = '' mundo'',
           metadata = [(''source'', MStr ''/tmp/tmpab12.pdf''), (''page'', MInt 0)]\<rparr>]\<rparr>"
  by (simp add: engine_unnamed_def example_ingest_default)

subsection \<open>Listing\<close>

text \<open>
  C1, as stated: the listing is exactly the set of distinct \<open>source\<close> values of the
  entries in the store. It fails for the engine that ingested a file without a
  filename: both entries have the source \<open>/tmp/tmpab12.pdf\<close>, and the listing is
  \<open>tmpab12.pdf\<close>, whichever way the handle is tested for truth.
\<close>

theorem listing_is_source_values_counterexample:
  "source_names (collection engine_unnamed) = [''/tmp/tmpab12.pdf'', ''/tmp/tmpab12.pdf'']
   \<and> get_ingested_files bool_object None engine_unnamed = [''tmpab12.pdf'']
   \<and> get_ingested_files bool_len None engine_unnamed = [''tmpab12.pdf'']
   \<and> set (get_ingested_files bool_object None engine_unnamed)
       \<noteq> set (source_names (collection engine_unnamed))"
  by (simp add: engine_unnamed_eq collection_def get_ingested_files_def falsy_def
        bool_object_def bool_len_def chroma_get_def basename_def)

text \<open>
  C1, amended: when the handle is set and true, the read succeeds and every \<open>source\<close> is
  a string, the listing has no duplicates and its elements are exactly the base names
  (\<open>os.path.basename\<close>) of the \<open>source\<close> values of the entries in the store. When the
  handle is unset or false, the read raises, or some \<open>source\<close> is not a string, the
  listing is empty.
\<close>

theorem get_ingested_files_basenames:
  "(\<not> falsy chroma_bool e \<longrightarrow> str_sources (collection e) \<longrightarrow>
      set (get_ingested_files chroma_bool None e) = basename ` set (source_names (collection e))
      \<and> distinct (get_ingested_files chroma_bool None e))
   \<and> (falsy chroma_bool e \<longrightarrow> get_ingested_files chroma_bool get_fault e = [])
   \<and> get_ingested_files chroma_bool (Some ex) e = []
   \<and> (\<not> str_sources (collection e) \<longrightarrow> get_ingested_files chroma_bool get_fault e = [])"
proof -
  have "get_ingested_files chroma_bool get_fault e = []" if "\<not> str_sources (collection e)"
    using unique_files_not_str [OF that, of "[]"]
    by (auto simp: get_ingested_files_def chroma_get_def split: option.splits)
  with listing_str [of chroma_bool e] show ?thesis
    by (auto simp: get_ingested_files_def chroma_get_def)
qed

theorem get_ingested_files_basenames_witness:
  "\<not> falsy bool_len engine_unnamed \<and> str_sources (collection engine_unnamed)
   \<and> set (get_ingested_files bool_len None engine_unnamed) = {''tmpab12.pdf''}
   \<and> distinct (get_ingested_files bool_len None engine_unnamed)
   \<and> falsy bool_len (init None)
   \<and> get_ingested_files bool_len (Some (Exception ''x'')) (init None) = []
   \<and> \<not> str_sources (collection
         \<lparr>vector_store = Some Chroma,
          persist_directory = Some [\<lparr>page_content = ''x'', metadata = [(''source'', MInt 7)]\<rparr>]\<rparr>)
   \<and> get_ingested_files bool_len None
         \<lparr>vector_store = Some Chroma,
          persist_directory = Some [\<lparr>page_content = ''x'', metadata = [(''source'', MInt 7)]\<rparr>]\<rparr>
       = []"
proof -
  have h4: "\<not> str_sources (collection
         \<lparr>vector_store = Some Chroma,
          persist_directory = Some [\<lparr>page_content = ''x'', metadata = [(''source'', MInt 7)]\<rparr>]\<rparr>)"
    by (simp add: str_sources_def collection_def)
  have h1: "\<not> falsy bool_len engine_unnamed"
    by (simp add: engine_unnamed_eq falsy_def bool_len_def collection_def)
  have h2: "str_sources (collection engine_unnamed)"
    by (simp add: engine_unnamed_eq str_sources_def collection_def)
  have h3: "falsy bool_len (init None)"
    by (simp add: falsy_def init_def init_vector_store_def)
  have n: "basename ` set (source_names (collection engine_unnamed)) = {''tmpab12.pdf''}"
    by (simp add: engine_unnamed_eq collection_def basename_def)
  show ?thesis
    using get_ingested_files_basenames
            [of bool_len engine_unnamed "Some (Exception ''x'')" "Exception ''x''"]
          get_ingested_files_basenames
            [of bool_len "init None" "Some (Exception ''x'')" "Exception ''x''"]
          get_ingested_files_basenames
            [of bool_len
                "\<lparr>vector_store = Some Chroma,
                  persist_directory =
                    Some [\<lparr>page_content = ''x'', metadata = [(''source'', MInt 7)]\<rparr>]\<rparr>"
                None "Exception ''x''"]
          h1 h2 h3 h4 n
    by simp
qed

subsection \<open>Ingestion\<close>

text \<open>
  C2, as stated: every entry an ingestion creates carries \<open>original_filename\<close> as its
  \<open>source\<close>, never the temporary path. It fails when \<open>original_filename\<close> is left at
  its default \<open>None\<close> or is the empty string: the entries keep the loader's source,
  the temporary path.
\<close>

theorem ingest_pdf_source_counterexample:
  "collection engine_unnamed =
     [\<lparr>page_content = ''hola m'',
        metadata = [(''source'', MStr ''/tmp/tmpab12.pdf''), (''page'', MInt 0)]\<rparr>,
      \<lparr>page_content = '' mundo'',
        metadata = [(''source'', MStr ''/tmp/tmpab12.pdf''), (''page'', MInt 0)]\<rparr>]
   \<and> collection (fst (ingest_pdf example_load example_split_text None (init None)
                         ''/tmp/tmpab12.pdf'' (Some ''''))) =
     [\<lparr>page_content = ''hola m'',
        metadata = [(''source'', MStr ''/tmp/tmpab12.pdf''), (''page'', MInt 0)]\<rparr>,
      \<lparr>page_content = '' mundo'',
        metadata = [(''source'', MStr ''/tmp/tmpab12.pdf''), (''page'', MInt 0)]\<rparr>]"
  by (simp add: engine_unnamed_eq example_ingest_empty_name collection_def)

text \<open>
  C2, amended: a successful ingestion adds to the store the chunks of all the loaded
  pages and nothing else. When \<open>original_filename\<close> is given and not empty, every page
  is stamped with it and every entry the call adds carries it as its \<open>source\<close>. When
  \<open>original_filename\<close> is omitted (\<open>None\<close>) or empty, the pages are not stamped: the
  entries the call adds are the chunks of the pages as loaded, each with the metadata,
  and so the source, the loader gave its page.
\<close>

theorem ingest_pdf_stamps_original_filename:
  assumes "ingest_pdf_try load split_text store_fault e file_path original_filename
             = Inr (e', msg)"
  shows "take (length (collection e)) (collection e') = collection e
         \<and> (\<exists>documents. load file_path = Inr documents
              \<and> (\<forall>f. original_filename = Some f \<and> f \<noteq> [] \<longrightarrow>
                    (\<forall>doc \<in> set documents. source_is f (stamp_source original_filename doc))
                    \<and> drop (length (collection e)) (collection e')
                        = split_documents split_text
                            (map (stamp_source original_filename) documents)
                    \<and> (\<forall>d \<in> set (drop (length (collection e)) (collection e')).
                          source_is f d))
              \<and> (original_filename = None \<or> original_filename = Some [] \<longrightarrow>
                    drop (length (collection e)) (collection e')
                      = split_documents split_text documents
                    \<and> (\<forall>d \<in> set (drop (length (collection e)) (collection e')).
                          \<exists>doc \<in> set documents. metadata d = metadata doc)))"
proof -
  from ingest_pdf_try_Inr [OF assms] obtain documents where
    d: "load file_path = Inr documents"
       "collection e' = collection e
          @ split_documents split_text (map (stamp_source original_filename) documents)"
    by blast
  from d(2) have new:
    "drop (length (collection e)) (collection e')
       = split_documents split_text (map (stamp_source original_filename) documents)"
    by simp
  have named: "(\<forall>doc \<in> set documents. source_is f (stamp_source original_filename doc))
      \<and> (\<forall>d \<in> set (drop (length (collection e)) (collection e')). source_is f d)"
    if "original_filename = Some f" "f \<noteq> []" for f
    using that new stamped_chunks_source [of f split_text documents] stamp_source_is [of f]
    by simp
  have same: "map (stamp_source original_filename) documents = documents"
    if "original_filename = None \<or> original_filename = Some []"
    using that by (auto simp: stamp_source_def intro: map_idI)
  have unnamed: "\<forall>d \<in> set (split_documents split_text documents).
                   \<exists>doc \<in> set documents. metadata d = metadata doc"
    by (auto simp: split_documents_def)
  from d(1) d(2) new named same unnamed show ?thesis
    by (intro conjI exI [of _ documents]) auto
qed

theorem ingest_pdf_stamps_original_filename_witness:
  "ingest_pdf_try example_load example_split_text None (init None)
       ''/tmp/tmpab12.pdf'' (Some ''a.pdf'')
     = Inr (engine_named, ''Procesado correctamente: 2 fragmentos de 'a.pdf'.'')
   \<and> list_all (source_is ''a.pdf'')
         (drop (length (collection (init None))) (collection engine_named))
   \<and> ingest_pdf_try example_load example_split_text None (init None)
       ''/tmp/tmpab12.pdf'' None
     = Inr (engine_unnamed, ''Procesado correctamente: 2 fragmentos de 'None'.'')
   \<and> drop (length (collection (init None))) (collection engine_unnamed)
       = split_documents example_split_text
           [\<lparr>page_content = ''hola mundo'',
              metadata = [(''source'', MStr ''/tmp/tmpab12.pdf''), (''page'', MInt 0)]\<rparr>]
   \<and> ingest_pdf_try example_load example_split_text None (init None)
       ''/tmp/tmpab12.pdf'' (Some '''')
     = Inr (engine_unnamed, ''Procesado correctamente: 2 fragmentos de '' @ quote @ quote @ ''.'')
   \<and> list_all (source_is ''/tmp/tmpab12.pdf'')
         (drop (length (collection (init None))) (collection engine_unnamed))"
proof -
  let ?page = "\<lparr>page_content = ''hola mundo'',
                 metadata = [(''source'', MStr ''/tmp/tmpab12.pdf''), (''page'', MInt 0)]\<rparr>"
  let ?new = "\<lambda>e'. drop (length (collection (init None))) (collection e')"
  have l: "example_load ''/tmp/tmpab12.pdf'' = Inr [?page]"
    by (simp add: example_load_def)
  have h1: "ingest_pdf_try example_load example_split_text None (init None)
              ''/tmp/tmpab12.pdf'' (Some ''a.pdf'')
            = Inr (engine_named, ''Procesado correctamente: 2 fragmentos de 'a.pdf'.'')"
    unfolding engine_named_eq by code_simp
  have h2: "ingest_pdf_try example_load example_split_text None (init None)
              ''/tmp/tmpab12.pdf'' None
            = Inr (engine_unnamed, ''Procesado correctamente: 2 fragmentos de 'None'.'')"
    unfolding engine_unnamed_eq by code_simp
  have h3: "ingest_pdf_try example_load example_split_text None (init None)
              ''/tmp/tmpab12.pdf'' (Some '''')
            = Inr (engine_unnamed,
                   ''Procesado correctamente: 2 fragmentos de '' @ quote @ quote @ ''.'')"
    unfolding engine_unnamed_eq by code_simp
  from ingest_pdf_stamps_original_filename [OF h1]
  have a: "list_all (source_is ''a.pdf'') (?new engine_named)"
    by (simp only: list_all_iff) blast
  from ingest_pdf_stamps_original_filename [OF h2] l
  have b: "?new engine_unnamed = split_documents example_split_text [?page]"
    by auto
  from ingest_pdf_stamps_original_filename [OF h3] l
  have "\<forall>d \<in> set (?new engine_unnamed). \<exists>doc \<in> set [?page]. metadata d = metadata doc"
    by auto
  then have c: "list_all (source_is ''/tmp/tmpab12.pdf'') (?new engine_unnamed)"
    by (auto simp: list_all_iff source_is_def)
  from h1 a h2 b h3 c show ?thesis by (intro conjI)
qed

text \<open>
  C9. A successful ingestion only appends: the entries that were in the store before the
  call are all still there afterwards, unchanged and in the same places, followed by the
  chunks of the ingested file.
\<close>

theorem ingest_pdf_only_appends:
  assumes "ingest_pdf_try load split_text store_fault e file_path original_filename
             = Inr (e', msg)"
  shows "take (length (collection e)) (collection e') = collection e
         \<and> length (collection e) \<le> length (collection e')
         \<and> (\<forall>i < length (collection e). collection e' ! i = collection e ! i)"
proof -
  from ingest_pdf_try_Inr [OF assms] obtain documents where
    "collection e' = collection e
       @ split_documents split_text (map (stamp_source original_filename) documents)"
    by blast
  then show ?thesis by (simp add: nth_append)
qed

theorem ingest_pdf_only_appends_witness:
  "ingest_pdf_try example_load example_split_text None engine_named
       ''/tmp/tmpcd34.pdf'' (Some ''b.pdf'')
     = Inr (\<lparr>vector_store = Some Chroma,
             persist_directory = Some
               [\<lparr>page_content = ''hola m'',
                  metadata = [(''source'', MStr ''a.pdf''), (''page'', MInt 0)]\<rparr>,
                \<lparr>page_content = '' mundo'',
                  metadata = [(''source'', MStr ''a.pdf''), (''page'', MInt 0)]\<rparr>,
                \<lparr>page_content = ''hola m'',
                  metadata = [(''source'', MStr ''b.pdf''), (''page'', MInt 0)]\<rparr>,
                \<lparr>page_content = '' mundo'',
                  metadata = [(''source'', MStr ''b.pdf''), (''page'', MInt 0)]\<rparr>]\<rparr>,
            ''Procesado correctamente: 2 fragmentos de 'b.pdf'.'')
   \<and> take (length (collection engine_named))
         [\<lparr>page_content = ''hola m'',
            metadata = [(''source'', MStr ''a.pdf''), (''page'', MInt 0)]\<rparr>,
          \<lparr>page_content = '' mundo'',
            metadata = [(''source'', MStr ''a.pdf''), (''page'', MInt 0)]\<rparr>,
          \<lparr>page_content = ''hola m'',
            metadata = [(''source'', MStr ''b.pdf''), (''page'', MInt 0)]\<rparr>,
          \<lparr>page_content = '' mundo'',
            metadata = [(''source'', MStr ''b.pdf''), (''page'', MInt 0)]\<rparr>]
       = collection engine_named"
proof -
  have h: "ingest_pdf_try example_load example_split_text None engine_named
       ''/tmp/tmpcd34.pdf'' (Some ''b.pdf'')
     = Inr (\<lparr>vector_store = Some Chroma,
             persist_directory = Some
               [\<lparr>page_content = ''hola m'',
                  metadata = [(''source'', MStr ''a.pdf''), (''page'', MInt 0)]\<rparr>,
                \<lparr>page_content = '' mundo'',
                  metadata = [(''source'', MStr ''a.pdf''), (''page'', MInt 0)]\<rparr>,
                \<lparr>page_content = ''hola m'',
                  metadata = [(''source'', MStr ''b.pdf''), (''page'', MInt 0)]\<rparr>,
                \<lparr>page_content = '' mundo'',
                  metadata = [(''source'', MStr ''b.pdf''), (''page'', MInt 0)]\<rparr>]\<rparr>,
            ''Procesado correctamente: 2 fragmentos de 'b.pdf'.'')"
    unfolding engine_named_eq by code_simp
  from ingest_pdf_only_appends [OF h] h show ?thesis
    by (simp add: collection_def)
qed

text \<open>
  C5. Whatever the loader and the vector store do, \<open>ingest_pdf\<close> returns a message: the
  error message with the text of the exception when the loader or the store raised, and
  otherwise the success message with the number of chunks. No exception leaves the call,
  so the upload loop goes on after a file that cannot be read: the batch ends in the
  state it would have reached without that file.
\<close>

theorem ingest_pdf_returns_message:
  "((\<exists>ex. (load file_path = Inl ex
            \<or> (\<exists>documents. load file_path = Inr documents) \<and> store_fault = Some ex)
          \<and> ingest_pdf load split_text store_fault e file_path original_filename
              = (e, ''Error al procesar PDF: '' @ str_exn ex))
    \<or> (\<exists>documents e'. load file_path = Inr documents \<and> store_fault = None
          \<and> ingest_pdf load split_text store_fault e file_path original_filename
              = (e', ''Procesado correctamente: ''
                     @ str_nat (length (split_documents split_text
                                          (map (stamp_source original_filename) documents)))
                     @ '' fragmentos de '' @ quote @ str_opt original_filename @ quote @ ''.'')))
   \<and> (load (tmp_path bad) = Inl ex' \<longrightarrow>
        upload_loop load split_text faults e (before @ bad # after)
          = upload_loop load split_text faults e (before @ after))"
proof -
  have "upload_loop load split_text faults e (before @ bad # after)
          = upload_loop load split_text faults e (before @ after)"
    if "load (tmp_path bad) = Inl ex'"
    using that by (simp add: upload_loop_append ingest_pdf_def ingest_pdf_try_def)
  moreover have "(\<exists>ex. (load file_path = Inl ex
            \<or> (\<exists>documents. load file_path = Inr documents) \<and> store_fault = Some ex)
          \<and> ingest_pdf load split_text store_fault e file_path original_filename
              = (e, ''Error al procesar PDF: '' @ str_exn ex))
    \<or> (\<exists>documents e'. load file_path = Inr documents \<and> store_fault = None
          \<and> ingest_pdf load split_text store_fault e file_path original_filename
              = (e', ''Procesado correctamente: ''
                     @ str_nat (length (split_documents split_text
                                          (map (stamp_source original_filename) documents)))
                     @ '' fragmentos de '' @ quote @ str_opt original_filename @ quote @ ''.''))"
    by (cases "load file_path"; cases store_fault)
       (auto simp: ingest_pdf_def ingest_pdf_try_def processed_message_def Let_def)
  ultimately show ?thesis by blast
qed

theorem ingest_pdf_returns_message_witness:
  "example_load (tmp_path \<lparr>name = ''roto.pdf'', tmp_path = ''/tmp/bad.pdf''\<rparr>)
     = Inl (Exception ''EOF marker not found'')
   \<and> upload_loop example_load example_split_text Map.empty (init None)
        ([] @ \<lparr>name = ''roto.pdf'', tmp_path = ''/tmp/bad.pdf''\<rparr>
            # [\<lparr>name = ''a.pdf'', tmp_path = ''/tmp/tmpab12.pdf''\<rparr>])
     = engine_named"
proof -
  have h: "example_load (tmp_path \<lparr>name = ''roto.pdf'', tmp_path = ''/tmp/bad.pdf''\<rparr>)
     = Inl (Exception ''EOF marker not found'')"
    by (simp add: example_load_def)
  have r: "upload_loop example_load example_split_text Map.empty (init None)
             ([] @ [\<lparr>name = ''a.pdf'', tmp_path = ''/tmp/tmpab12.pdf''\<rparr>]) = engine_named"
    by (simp add: engine_named_def)
  from ingest_pdf_returns_message
         [of example_load "''/tmp/bad.pdf''" None example_split_text "init None" None
             "\<lparr>name = ''roto.pdf'', tmp_path = ''/tmp/bad.pdf''\<rparr>"
             "Exception ''EOF marker not found''" Map.empty "[]"
             "[\<lparr>name = ''a.pdf'', tmp_path = ''/tmp/tmpab12.pdf''\<rparr>]"]
       h r
  show ?thesis by simp
qed

subsection \<open>Ingesting twice\<close>

text \<open>
  C7, as stated: for every file content and filename, a second ingestion under the same
  filename leaves one filename listed for the document. It fails for the empty filename:
  the pages are not stamped, each upload keeps the temporary path it was loaded from as
  its source, and after two ingestions of the same content from two temporary paths the
  listing has two names for the one document.
\<close>

theorem ingest_twice_empty_filename_counterexample:
  "fst (ingest_pdf example_load example_split_text None (init None)
          ''/tmp/tmpab12.pdf'' (Some '''')) = engine_unnamed
   \<and> map page_content
         (collection (fst (ingest_pdf example_load example_split_text None engine_unnamed
                             ''/tmp/tmpcd34.pdf'' (Some ''''))))
       = [''hola m'', '' mundo'', ''hola m'', '' mundo'']
   \<and> set (get_ingested_files bool_object None
              (fst (ingest_pdf example_load example_split_text None engine_unnamed
                      ''/tmp/tmpcd34.pdf'' (Some ''''))))
       = {''tmpab12.pdf'', ''tmpcd34.pdf''}
   \<and> length (get_ingested_files bool_object None
              (fst (ingest_pdf example_load example_split_text None engine_unnamed
                      ''/tmp/tmpcd34.pdf'' (Some '''')))) = 2
   \<and> length (get_ingested_files bool_len None
              (fst (ingest_pdf example_load example_split_text None engine_unnamed
                      ''/tmp/tmpcd34.pdf'' (Some '''')))) = 2"
proof -
  have e2: "fst (ingest_pdf example_load example_split_text None engine_unnamed
                   ''/tmp/tmpcd34.pdf'' (Some ''''))
            = \<lparr>vector_store = Some Chroma,
               persist_directory = Some
                 [\<lparr>page_content = ''hola m'',
                    metadata = [(''source'', MStr ''/tmp/tmpab12.pdf''), (''page'', MInt 0)]\<rparr>,
                  \<lparr>page_content = '' mundo'',
                    metadata = [(''source'', MStr ''/tmp/tmpab12.pdf''), (''page'', MInt 0)]\<rparr>,
                  \<lparr>page_content = ''hola m'',
                    metadata = [(''source'', MStr ''/tmp/tmpcd34.pdf''), (''page'', MInt 0)]\<rparr>,
                  \<lparr>page_content = '' mundo'',
                    metadata = [(''source'', MStr ''/tmp/tmpcd34.pdf''), (''page'', MInt 0)]\<rparr>]\<rparr>"
    unfolding engine_unnamed_eq by code_simp
  show ?thesis
    unfolding e2
    by (simp add: example_ingest_empty_name engine_unnamed_eq collection_def
          get_ingested_files_def falsy_def bool_object_def bool_len_def chroma_get_def
          basename_def insert_commute)
qed

text \<open>
  C7, amended: take a store in which every \<open>source\<close> value is a string and that
  refuses an empty batch, and a client handle that tests true on a non-empty collection.
  Ingesting the same content (the same page texts) twice with success under the same
  non-empty filename lists the document once: the base name of the filename is in the
  listing, the listing has no duplicates and is the same as after the first ingestion,
  while the number of entries in the store grows with each ingestion.
\<close>

theorem ingest_twice_listed_once:
  assumes "load path1 = Inr documents1" and "load path2 = Inr documents2"
    and "map page_content documents1 = map page_content documents2"
    and "f \<noteq> []"
    and "split_documents split_text (map (stamp_source (Some f)) documents1) = []
           \<Longrightarrow> fault1 \<noteq> None"
    and "ingest_pdf_try load split_text fault1 e path1 (Some f) = Inr (e1, msg1)"
    and "ingest_pdf_try load split_text fault2 e1 path2 (Some f) = Inr (e2, msg2)"
    and "str_sources (collection e)"
    and "\<And>es. es \<noteq> [] \<Longrightarrow> chroma_bool es"
  shows "basename f \<in> set (get_ingested_files chroma_bool None e2)
         \<and> distinct (get_ingested_files chroma_bool None e2)
         \<and> set (get_ingested_files chroma_bool None e2)
             = set (get_ingested_files chroma_bool None e1)
         \<and> length (collection e) < length (collection e1)
         \<and> length (collection e1) < length (collection e2)"
proof -
  let ?chunks1 = "split_documents split_text (map (stamp_source (Some f)) documents1)"
  let ?chunks2 = "split_documents split_text (map (stamp_source (Some f)) documents2)"
  have c1: "collection e1 = collection e @ ?chunks1" and v1: "vector_store e1 = Some Chroma"
    using ingest_pdf_try_Inr [OF assms(6)] assms(1) by auto
  have c2: "collection e2 = collection e1 @ ?chunks2" and v2: "vector_store e2 = Some Chroma"
    using ingest_pdf_try_Inr [OF assms(7)] assms(2) by auto
  have "map page_content ?chunks1 = map page_content ?chunks2"
    by (rule split_documents_same_text [OF assms(3)])
  then have "length ?chunks1 = length ?chunks2"
    by (rule map_eq_imp_length_eq)
  moreover have "fault1 = None"
    using ingest_pdf_try_Inr [OF assms(6)] by blast
  ultimately have ne: "?chunks1 \<noteq> []" "?chunks2 \<noteq> []"
    using assms(5) by auto
  have src1: "\<forall>d \<in> set ?chunks1. source_is f d"
    by (rule stamped_chunks_source [OF assms(4)])
  have src2: "\<forall>d \<in> set ?chunks2. source_is f d"
    by (rule stamped_chunks_source [OF assms(4)])
  have names: "set (source_names ?chunks1) = {f}" "set (source_names ?chunks2) = {f}"
    using source_names_all [OF src1] source_names_all [OF src2] ne by simp_all
  have strs: "str_sources ?chunks1" "str_sources ?chunks2"
    by (rule str_sources_all [OF src1], rule str_sources_all [OF src2])
  have t1: "\<not> falsy chroma_bool e1"
    using c1 v1 ne assms(9) [of "collection e1"] by (simp add: falsy_def)
  have t2: "\<not> falsy chroma_bool e2"
    using c2 v2 ne assms(9) [of "collection e2"] by (simp add: falsy_def)
  have s1: "str_sources (collection e1)"
    using c1 assms(8) strs by (simp add: str_sources_append)
  have s2: "str_sources (collection e2)"
    using c2 s1 strs by (simp add: str_sources_append)
  have l1: "set (get_ingested_files chroma_bool None e1)
              = basename ` (set (source_names (collection e)) \<union> {f})"
    using listing_str(1) [OF t1 s1] c1 names by (simp add: source_names_append)
  have l2: "set (get_ingested_files chroma_bool None e2)
              = basename ` (set (source_names (collection e)) \<union> {f})"
    using listing_str(1) [OF t2 s2] c1 c2 names by (simp add: source_names_append)
  have "length ?chunks1 > 0" "length ?chunks2 > 0" using ne by simp_all
  with l1 l2 listing_str(2) [OF t2 s2] c1 c2 show ?thesis by simp
qed

theorem ingest_twice_listed_once_witness:
  "set (get_ingested_files bool_len None
      (fst (ingest_pdf example_load example_split_text None engine_named
              ''/tmp/tmpcd34.pdf'' (Some ''a.pdf'')))) = {''a.pdf''}
   \<and> distinct (get_ingested_files bool_len None
      (fst (ingest_pdf example_load example_split_text None engine_named
              ''/tmp/tmpcd34.pdf'' (Some ''a.pdf''))))
   \<and> length (collection (init None)) = 0
   \<and> length (collection engine_named) = 2
   \<and> 2 < length (collection
             (fst (ingest_pdf example_load example_split_text None engine_named
                     ''/tmp/tmpcd34.pdf'' (Some ''a.pdf''))))"
proof -
  let ?d1 = "[\<lparr>page_content = ''hola mundo'',
                metadata = [(''source'', MStr ''/tmp/tmpab12.pdf''), (''page'', MInt 0)]\<rparr>]"
  let ?d2 = "[\<lparr>page_content = ''hola mundo'',
                metadata = [(''source'', MStr ''/tmp/tmpcd34.pdf''), (''page'', MInt 0)]\<rparr>]"
  let ?r2 = "ingest_pdf example_load example_split_text None engine_named
               ''/tmp/tmpcd34.pdf'' (Some ''a.pdf'')"
  have h1: "example_load ''/tmp/tmpab12.pdf'' = Inr ?d1"
    and h2: "example_load ''/tmp/tmpcd34.pdf'' = Inr ?d2"
    by (simp_all add: example_load_def)
  have h3: "map page_content ?d1 = map page_content ?d2" by simp
  have h4: "''a.pdf'' \<noteq> []" by simp
  have h5: "split_documents example_split_text (map (stamp_source (Some ''a.pdf'')) ?d1) = []
              \<Longrightarrow> (None :: exn option) \<noteq> None"
    by (simp add: split_documents_def example_split_text_def)
  have h6: "ingest_pdf_try example_load example_split_text None (init None)
              ''/tmp/tmpab12.pdf'' (Some ''a.pdf'')
            = Inr (engine_named, snd (ingest_pdf example_load example_split_text None (init None)
                                        ''/tmp/tmpab12.pdf'' (Some ''a.pdf'')))"
    by (simp add: engine_named_def ingest_pdf_def ingest_pdf_try_def h1 Let_def)
  have h7: "ingest_pdf_try example_load example_split_text None engine_named
              ''/tmp/tmpcd34.pdf'' (Some ''a.pdf'') = Inr (fst ?r2, snd ?r2)"
    by (simp add: ingest_pdf_def ingest_pdf_try_def h2 Let_def)
  have h8: "str_sources (collection (init None))"
    by (simp add: str_sources_def collection_def init_def init_vector_store_def)
  have h9: "\<And>es. es \<noteq> [] \<Longrightarrow> bool_len es" by (simp add: bool_len_def)
  have l1: "set (get_ingested_files bool_len None engine_named) = {''a.pdf''}"
    by (simp add: engine_named_eq collection_def get_ingested_files_def falsy_def
          bool_len_def chroma_get_def basename_def)
  have n1: "length (collection engine_named) = 2"
    by (simp add: engine_named_eq collection_def)
  have n0: "length (collection (init None)) = 0"
    by (simp add: collection_def init_def init_vector_store_def)
  from ingest_twice_listed_once [OF h1 h2 h3 h4 h5 h6 h7 h8 h9] l1 n1 n0
  show ?thesis by simp
qed

subsection \<open>Deleting\<close>

text \<open>
  C4, as stated: deleting a filename that was never ingested returns a message saying
  that nothing was removed. It fails: for the engine that holds only \<open>a.pdf\<close>, deleting
  \<open>b.pdf\<close> leaves the engine as it was and returns the message of a deletion, the one
  deleting \<open>a.pdf\<close> returns for \<open>a.pdf\<close>.
\<close>

theorem delete_file_never_ingested_counterexample:
  "\<not> list_ex (source_is ''b.pdf'') (collection engine_named)
   \<and> delete_file bool_len None engine_named ''b.pdf''
       = (engine_named, ''Archivo 'b.pdf' eliminado de la memoria.'')
   \<and> delete_file bool_object None engine_named ''b.pdf''
       = (engine_named, ''Archivo 'b.pdf' eliminado de la memoria.'')
   \<and> delete_file bool_len None engine_named ''a.pdf''
       = (\<lparr>vector_store = Some Chroma, persist_directory = Some []\<rparr>,
          ''Archivo 'a.pdf' eliminado de la memoria.'')"
  by (simp add: engine_named_eq delete_file_def falsy_def bool_len_def bool_object_def
        collection_def chroma_delete_def source_is_def quote_def)

text \<open>
  C4, amended: when the handle is unset or false, \<open>delete_file\<close> returns the message
  that the database is not initialised and changes nothing. Otherwise a store call that
  raises gives the error message with the exception's text, and one that succeeds
  removes from the store exactly the entries whose \<open>source\<close> is the filename, so that
  none with that source remains, keeps every other entry, and returns the message that
  the file was removed; this is also the message for a filename that was never
  ingested, where the engine is left unchanged.
\<close>

theorem delete_file_removes_every_entry:
  "(falsy chroma_bool e \<longrightarrow>
      delete_file chroma_bool delete_fault e filename
        = (e, ''Error: Base de datos no inicializada.''))
   \<and> (\<not> falsy chroma_bool e \<longrightarrow>
      delete_file chroma_bool (Some ex) e filename
        = (e, ''Error al eliminar archivo: '' @ str_exn ex)
      \<and> snd (delete_file chroma_bool None e filename)
          = ''Archivo '' @ quote @ filename @ quote @ '' eliminado de la memoria.''
      \<and> collection (fst (delete_file chroma_bool None e filename))
          = filter (\<lambda>d. \<not> source_is filename d) (collection e)
      \<and> (\<forall>d \<in> set (collection (fst (delete_file chroma_bool None e filename))).
            \<not> source_is filename d)
      \<and> vector_store (fst (delete_file chroma_bool None e filename)) = vector_store e
      \<and> ((\<forall>d \<in> set (collection e). \<not> source_is filename d) \<longrightarrow>
            fst (delete_file chroma_bool None e filename) = e))"
proof -
  have "filter (\<lambda>d. \<not> source_is filename d) es = es"
    if "\<forall>d \<in> set es. \<not> source_is filename d" for es
    using that by (simp add: filter_id_conv)
  then show ?thesis
    by (cases e; cases "persist_directory e")
       (auto simp: delete_file_def collection_def chroma_delete_def)
qed

theorem delete_file_removes_every_entry_witness:
  "falsy bool_len (init None)
   \<and> delete_file bool_len None (init None) ''a.pdf''
       = (init None, ''Error: Base de datos no inicializada.'')
   \<and> \<not> falsy bool_len engine_named
   \<and> collection (fst (delete_file bool_len None engine_named ''a.pdf'')) = []
   \<and> \<not> list_ex (source_is ''b.pdf'') (collection engine_named)
   \<and> fst (delete_file bool_len None engine_named ''b.pdf'') = engine_named"
proof -
  have h1: "falsy bool_len (init None)"
    by (simp add: falsy_def init_def init_vector_store_def)
  have h2: "\<not> falsy bool_len engine_named"
    by (simp add: engine_named_eq falsy_def bool_len_def collection_def)
  have h3: "\<forall>d \<in> set (collection engine_named). \<not> source_is ''b.pdf'' d"
    by (simp add: engine_named_eq collection_def source_is_def)
  have f: "filter (\<lambda>d. \<not> source_is ''a.pdf'' d) (collection engine_named) = []"
    by (simp add: engine_named_eq collection_def source_is_def)
  from delete_file_removes_every_entry [of bool_len "init None" None "''a.pdf''"]
       delete_file_removes_every_entry [of bool_len engine_named None "''a.pdf''"]
       delete_file_removes_every_entry [of bool_len engine_named None "''b.pdf''"]
       h1 h2 h3 f
  show ?thesis by (simp add: list_ex_iff)
qed

subsection \<open>The answer pipeline\<close>

text \<open>
  C3. The claim is that \<open>get_chain\<close> returns \<open>None\<close> exactly when no document is in the
  store. The code tests the in-memory handle instead (\<open>if not self.vector_store\<close>),
  and a client object that defines no truth value of its own is true like any other
  object. Evaluated at an engine that ingested \<open>a.pdf\<close> and then deleted it: the store
  is empty and \<open>get_ingested_files\<close> lists nothing, yet \<open>get_chain\<close> returns a pipeline,
  and invoking it calls the generative model with an empty context block, where
  \<open>app.py\<close> has the fixed answer that the library is empty for the \<open>None\<close> result. The
  same test fails the other way after a \<open>clear_database\<close> whose removal of the directory
  raised: both entries are still persisted, and the result is \<open>None\<close>.
\<close>

theorem get_chain_pipeline_with_empty_store:
  "collection (fst (delete_file bool_object None engine_named ''a.pdf'')) = []
   \<and> get_ingested_files bool_object None
         (fst (delete_file bool_object None engine_named ''a.pdf'')) = []
   \<and> get_chain bool_object example_llm example_search
         (fst (delete_file bool_object None engine_named ''a.pdf''))
       = Some (rag_chain example_llm example_search [])
   \<and> rag_chain example_llm example_search [] \<lparr>input = ''hola'', chat_history = []\<rparr> []
       = (Inr ''respuesta'',
          [Generate (contextualize_q_prompt \<lparr>input = ''hola'', chat_history = []\<rparr>),
           Similarity_search ''pregunta independiente'' 4,
           Generate (qa_prompt [] \<lparr>input = ''hola'', chat_history = []\<rparr>)])
   \<and> length (collection (fst (clear_database (Some (Exception ''Permission denied''))
                                engine_named))) = 2
   \<and> get_chain bool_object example_llm example_search
         (fst (clear_database (Some (Exception ''Permission denied'')) engine_named)) = None"
proof -
  have d: "fst (delete_file bool_object None engine_named ''a.pdf'')
             = \<lparr>vector_store = Some Chroma, persist_directory = Some []\<rparr>"
    by (simp add: engine_named_eq delete_file_def falsy_def bool_object_def collection_def
          chroma_delete_def source_is_def)
  have r: "rag_chain example_llm example_search [] \<lparr>input = ''hola'', chat_history = []\<rparr> []
       = (Inr ''respuesta'',
          [Generate (contextualize_q_prompt \<lparr>input = ''hola'', chat_history = []\<rparr>),
           Similarity_search ''pregunta independiente'' 4,
           Generate (qa_prompt [] \<lparr>input = ''hola'', chat_history = []\<rparr>)])"
    by (simp add: rag_chain_def history_aware_retriever_def StrOutputParser_def Let_def
          example_llm_def example_search_def format_docs_def)
  have c: "fst (clear_database (Some (Exception ''Permission denied'')) engine_named)
             = \<lparr>vector_store = None, persist_directory = persist_directory engine_named\<rparr>"
    by (simp add: engine_named_eq clear_database_def)
  show ?thesis
    unfolding d c
    by (simp add: r get_chain_def get_ingested_files_def falsy_def bool_object_def
          collection_def chroma_get_def engine_named_eq)
qed

lemma rag_chain_trace:
  "snd (rag_chain llm search store x tr) =
     tr @ Generate (contextualize_q_prompt x)
        # (case llm tr (contextualize_q_prompt x) of
             Inl ex \<Rightarrow> []
           | Inr q \<Rightarrow>
               Similarity_search q 4
               # (case search store q 4 of
                    Inl ex \<Rightarrow> []
                  | Inr docs \<Rightarrow> [Generate (qa_prompt (format_docs docs) x)]))"
  by (simp add: rag_chain_def history_aware_retriever_def StrOutputParser_def Let_def
           split: sum.splits prod.splits)

text \<open>
  C6. When the rewrite of the question and the search succeed, the pipeline \<open>get_chain\<close>
  returns first invokes the model on the reformulation prompt (the fixed instruction,
  the history, the question), then asks the vector store for the \<open>k = 4\<close> entries
  nearest to the rewritten question, then invokes the generative model once on the answer
  prompt: a system message made of the fixed instruction followed by the context block,
  which is the texts of the retrieved chunks in the order of the result with two
  newlines between them, then the history, then the question. The pipeline returns that
  model's text as it is.
\<close>

theorem rag_chain_retrieves_four_and_joins:
  fixes x :: chain_input and docs :: "document list"
  defines "reformulation \<equiv>
     (System,
      ''Dado un historial de chat y la '' @ [CHR 0xC3, CHR 0xBA]
      @ ''ltima pregunta del usuario '' @ [CHR 0x0A]
      @ ''        (que podr'' @ [CHR 0xC3, CHR 0xAD]
      @ ''a hacer referencia al contexto del historial), formula una pregunta independiente ''
      @ [CHR 0x0A]
      @ ''        que pueda entenderse sin el historial. NO la respondas, solo re-form''
      @ [CHR 0xC3, CHR 0xBA] @ ''lala si es necesario '' @ [CHR 0x0A]
      @ ''        o devu'' @ [CHR 0xC3, CHR 0xA9] @ ''lvela tal cual si ya es clara.'')
     # chat_history x @ [(Human, input x)]"
    and "answer \<equiv>
     (System,
      ''Eres un asistente experto para tareas de preguntas y respuestas. '' @ [CHR 0x0A]
      @ ''        Usa los siguientes fragmentos de contexto recuperado para responder a la pregunta. ''
      @ [CHR 0x0A]
      @ ''        Si no sabes la respuesta, di simplemente que no lo sabes. '' @ [CHR 0x0A]
      @ ''        Usa un m'' @ [CHR 0xC3, CHR 0xA1] @ ''ximo de tres oraciones y mant''
      @ [CHR 0xC3, CHR 0xA9] @ ''n la respuesta concisa.'' @ [CHR 0x0A]
      @ ''        RESPONDE SIEMPRE EN ESPA'' @ [CHR 0xC3, CHR 0x91] @ ''OL.'' @ [CHR 0x0A]
      @ ''        '' @ [CHR 0x0A]
      @ ''        '' @ join [CHR 0x0A, CHR 0x0A] (map page_content docs))
     # chat_history x @ [(Human, input x)]"
  assumes "get_chain chroma_bool llm search e = Some chain"
    and "llm tr reformulation = Inr q"
    and "search (collection e) q 4 = Inr docs"
  shows "chain x tr =
           (llm (tr @ [Generate reformulation, Similarity_search q 4]) answer,
            tr @ [Generate reformulation, Similarity_search q 4, Generate answer])"
proof -
  have r: "reformulation = contextualize_q_prompt x"
    by (simp add: reformulation_def contextualize_q_prompt_def
          contextualize_q_system_prompt_def nl_def)
  have a: "answer = qa_prompt (format_docs docs) x"
    by (simp add: answer_def qa_prompt_def qa_system_prompt_def format_docs_def nl_def)
  from assms(3) have chain: "chain = rag_chain llm search (collection e)"
    by (simp add: get_chain_def split: if_splits)
  show ?thesis
    unfolding chain r a using assms(4,5) [unfolded r]
    by (cases "llm (tr @ [Generate (contextualize_q_prompt x), Similarity_search q 4])
                   (qa_prompt (format_docs docs) x)")
       (simp_all add: rag_chain_def history_aware_retriever_def StrOutputParser_def Let_def)
qed

theorem rag_chain_retrieves_four_and_joins_witness:
  "get_chain bool_len example_llm example_search engine_named
     = Some (rag_chain example_llm example_search (collection engine_named))
   \<and> example_llm [] (contextualize_q_prompt \<lparr>input = ''hola'', chat_history = []\<rparr>)
       = Inr ''pregunta independiente''
   \<and> example_search (collection engine_named) ''pregunta independiente'' 4
       = Inr [\<lparr>page_content = ''hola m'',
                metadata = [(''source'', MStr ''a.pdf''), (''page'', MInt 0)]\<rparr>,
              \<lparr>page_content = '' mundo'',
                metadata = [(''source'', MStr ''a.pdf''), (''page'', MInt 0)]\<rparr>]
   \<and> rag_chain example_llm example_search (collection engine_named)
        \<lparr>input = ''hola'', chat_history = []\<rparr> []
      = (Inr ''respuesta'',
         [Generate (contextualize_q_prompt \<lparr>input = ''hola'', chat_history = []\<rparr>),
          Similarity_search ''pregunta independiente'' 4,
          Generate (qa_prompt (''hola m'' @ [CHR 0x0A, CHR 0x0A] @ '' mundo'')
                      \<lparr>input = ''hola'', chat_history = []\<rparr>)])"
proof -
  let ?x = "\<lparr>input = ''hola'', chat_history = []\<rparr>"
  let ?docs = "[\<lparr>page_content = ''hola m'',
                  metadata = [(''source'', MStr ''a.pdf''), (''page'', MInt 0)]\<rparr>,
                \<lparr>page_content = '' mundo'',
                  metadata = [(''source'', MStr ''a.pdf''), (''page'', MInt 0)]\<rparr>]"
  have h1: "get_chain bool_len example_llm example_search engine_named
              = Some (rag_chain example_llm example_search (collection engine_named))"
    by (simp add: get_chain_def falsy_def bool_len_def engine_named_eq collection_def)
  have h2: "example_llm [] p = Inr ''pregunta independiente''" for p
    by (simp add: example_llm_def)
  have h3: "example_search (collection engine_named) ''pregunta independiente'' 4 = Inr ?docs"
    by (simp add: example_search_def engine_named_eq collection_def)
  have h4: "example_llm (t # ts) p = Inr ''respuesta''" for t ts p
    by (simp add: example_llm_def)
  note t = rag_chain_retrieves_four_and_joins
             [where x = ?x and docs = ?docs and tr = "[]" and llm = example_llm
                and search = example_search and e = engine_named and chroma_bool = bool_len
                and q = "''pregunta independiente''", OF h1 h2 h3]
  have "rag_chain example_llm example_search (collection engine_named) ?x []
      = (Inr ''respuesta'',
         [Generate (contextualize_q_prompt ?x),
          Similarity_search ''pregunta independiente'' 4,
          Generate (qa_prompt (''hola m'' @ [CHR 0x0A, CHR 0x0A] @ '' mundo'') ?x)])"
    unfolding t
    by (simp add: h4 contextualize_q_prompt_def contextualize_q_system_prompt_def
          qa_prompt_def qa_system_prompt_def nl_def)
  with h1 h2 h3 show ?thesis by (intro conjI)
qed

text \<open>
  C8. The first external call of the pipeline is always the generative model on the
  reformulation prompt, also when the history is empty (the prompt is then the system
  instruction and the question); and whenever the pipeline queries the vector store, the
  query is the text the model returned for that prompt and \<open>k\<close> is 4. The question itself
  is never handed to the search.
\<close>

theorem reformulation_always_invoked:
  "take (Suc (length tr)) (snd (rag_chain llm search store x tr))
     = tr @ [Generate (contextualize_q_prompt x)]
   \<and> contextualize_q_prompt \<lparr>input = question, chat_history = []\<rparr>
       = [(System, contextualize_q_system_prompt), (Human, question)]
   \<and> (\<forall>query k. Similarity_search query k
                   \<in> set (drop (length tr) (snd (rag_chain llm search store x tr)))
        \<longrightarrow> llm tr (contextualize_q_prompt x) = Inr query \<and> k = 4)"
  by (auto simp: rag_chain_trace contextualize_q_prompt_def split: sum.splits)

theorem reformulation_always_invoked_witness:
  "Similarity_search ''pregunta independiente'' 4
     \<in> set (snd (rag_chain example_llm example_search (collection engine_named)
                    \<lparr>input = ''hola'', chat_history = []\<rparr> []))
   \<and> example_llm [] [(System, contextualize_q_system_prompt), (Human, ''hola'')]
       = Inr ''pregunta independiente''
   \<and> take (Suc 0) (snd (rag_chain example_llm example_search (collection engine_named)
                           \<lparr>input = ''hola'', chat_history = []\<rparr> []))
       = [Generate [(System, contextualize_q_system_prompt), (Human, ''hola'')]]"
proof -
  let ?x = "\<lparr>input = ''hola'', chat_history = []\<rparr>"
  let ?store = "collection engine_named"
  let ?tr = "[] :: event list"
  have h: "Similarity_search ''pregunta independiente'' 4
             \<in> set (drop (length ?tr) (snd (rag_chain example_llm example_search ?store ?x ?tr)))"
    by (simp add: rag_chain_trace example_llm_def)
  note t = reformulation_always_invoked
             [of ?tr example_llm example_search ?store ?x "''hola''"]
  have p: "contextualize_q_prompt ?x
             = [(System, contextualize_q_system_prompt), (Human, ''hola'')]"
    by (rule t [THEN conjunct2, THEN conjunct1])
  have q: "example_llm ?tr (contextualize_q_prompt ?x) = Inr ''pregunta independiente''"
    using t [THEN conjunct2, THEN conjunct2] h by blast
  have "take (Suc (length ?tr)) (snd (rag_chain example_llm example_search ?store ?x ?tr))
          = ?tr @ [Generate (contextualize_q_prompt ?x)]"
    by (rule t [THEN conjunct1])
  then have r: "take (Suc 0) (snd (rag_chain example_llm example_search ?store ?x ?tr))
                  = [Generate (contextualize_q_prompt ?x)]"
    by simp
  from h have m: "Similarity_search ''pregunta independiente'' 4
                    \<in> set (snd (rag_chain example_llm example_search ?store ?x ?tr))"
    by simp
  from m q r show ?thesis unfolding p by (intro conjI)
qed

subsection \<open>Clearing the database\<close>

text \<open>
  C10. \<open>clear_database\<close> is not atomic on error: when the persisted directory exists and
  its removal raises, the call returns the error message with the handle already reset
  to \<open>None\<close> and the persisted store still in place; when the directory is absent, it
  returns the "already empty" message and leaves the engine, handle included, untouched.
\<close>

theorem clear_database_not_atomic:
  "(persist_directory e = Some es \<longrightarrow>
      clear_database (Some ex) e =
        (\<lparr>vector_store = None, persist_directory = Some es\<rparr>,
         ''Error al borrar base de datos: '' @ str_exn ex))
   \<and> (persist_directory e = None \<longrightarrow>
      clear_database fault e =
        (e, ''La base de datos ya estaba vac'' @ [CHR 0xC3, CHR 0xAD] @ ''a.''))"
  by (cases e) (simp add: clear_database_def)

theorem clear_database_not_atomic_witness:
  "clear_database (Some (Exception ''Permission denied''))
      \<lparr>vector_store = Some Chroma,
       persist_directory = Some [\<lparr>page_content = ''x'', metadata = [(''source'', MStr ''a.pdf'')]\<rparr>]\<rparr>
     = (\<lparr>vector_store = None,
         persist_directory = Some [\<lparr>page_content = ''x'', metadata = [(''source'', MStr ''a.pdf'')]\<rparr>]\<rparr>,
        ''Error al borrar base de datos: Permission denied'')
   \<and> clear_database None \<lparr>vector_store = Some Chroma, persist_directory = None\<rparr>
     = (\<lparr>vector_store = Some Chroma, persist_directory = None\<rparr>,
        ''La base de datos ya estaba vac'' @ [CHR 0xC3, CHR 0xAD] @ ''a.'')"
  using clear_database_not_atomic
          [of "\<lparr>vector_store = Some Chroma,
                persist_directory = Some [\<lparr>page_content = ''x'', metadata = [(''source'', MStr ''a.pdf'')]\<rparr>]\<rparr>"
              "[\<lparr>page_content = ''x'', metadata = [(''source'', MStr ''a.pdf'')]\<rparr>]"
              "Exception ''Permission denied''" None]
        clear_database_not_atomic
          [of "\<lparr>vector_store = Some Chroma, persist_directory = None\<rparr>" "[]"
              "Exception ''x''" None]
  by simp

end
